theory Spec2Isabelle
  imports Main
begin

section \<open>The auth router: data model\<close>

text \<open>
  The router holds no state of its own: every handler reads and writes the database through
  the Prisma client. The database is modelled as a record of its two tables, each a list of
  rows in insertion order. Times are milliseconds since the epoch, as \<open>Date.now()\<close> returns
  them.
\<close>

record user =
  id_u :: nat
  email :: string
  hashedPassword :: string
  name :: string
  bio :: "string option"
  emailVerified :: bool
  role :: string
  createdAt :: int
  updatedAt :: int
  lastLoginAt :: "int option"

record refreshToken =
  id_rt :: nat
  tokenHash :: string
  userId :: nat
  expiresAt :: int
  revoked :: bool
  ip :: "string option"
  userAgent :: "string option"

record store =
  users :: "user list"
  refreshTokens :: "refreshToken list"

text \<open>
  What the handlers import and do not define: the SHA-256 hex digest of \<open>crypto\<close>,
  \<open>hashPassword\<close> and \<open>verifyPassword\<close> of \<open>utils/passwordHash\<close>, \<open>signAccessToken\<close> of
  \<open>utils/jwt\<close> (given the clock as well, since a signed token carries its issue time), and
  the column defaults of the \<open>User\<close> table (the row \<open>userDefaults\<close>, of which \<open>create\<close>
  overwrites the columns it is given) and the equality of its \<open>email\<close> column, by which
  \<open>findUnique({ where: { email } })\<close> matches (for a plain string column, equality of the
  strings). They are parameters of every handler.
\<close>

record deps =
  sha256 :: "string \<Rightarrow> string"
  hashPassword :: "string \<Rightarrow> string"
  verifyPassword :: "string \<Rightarrow> string \<Rightarrow> bool"
  signAccessToken :: "nat \<Rightarrow> string \<Rightarrow> int \<Rightarrow> string"
  userDefaults :: user
  emailEq :: "string \<Rightarrow> string \<Rightarrow> bool"

text \<open>\<open>process.env\<close>: an unset variable is \<open>None\<close>.\<close>

record env =
  REFRESH_TOKEN_EXP_DAYS :: "string option"
  NODE_ENV :: "string option"
  COOKIE_DOMAIN :: "string option"

text \<open>
  The parts of the request the handlers read. A body field or cookie that is absent is
  \<open>None\<close>; the fields that are present are strings.
\<close>

record request =
  body_email :: "string option"
  body_password :: "string option"
  body_name :: "string option"
  cookie_refreshToken :: "string option"
  req_ip :: "string option"
  header_user_agent :: "string option"

record cookie_opts =
  httpOnly :: bool
  secure :: bool
  sameSite :: string
  maxAge :: "int option"
  domain :: string

datatype cookie_op =
  SetCookie string string cookie_opts
| ClearCookie string cookie_opts

record userJson =
  j_id :: nat
  j_email :: string
  j_name :: string
  j_bio :: "string option"
  j_emailVerified :: bool
  j_createdAt :: int
  j_updatedAt :: int
  j_lastLoginAt :: "int option"

datatype json_body =
  Message string
| AuthBody string userJson
| TokenBody string

record response =
  status :: nat
  body :: json_body
  cookies :: "cookie_op list"

section \<open>JavaScript primitives\<close>

text \<open>\<open>!x\<close> on a value that is a string or \<open>undefined\<close>: true when absent or empty.\<close>

definition falsy :: "string option \<Rightarrow> bool" where
  "falsy x = (case x of None \<Rightarrow> True | Some s \<Rightarrow> s = [])"

text \<open>The string a field holds once \<open>falsy\<close> has ruled out its absence.\<close>

definition present :: "string option \<Rightarrow> string" where
  "present x = (case x of None \<Rightarrow> [] | Some s \<Rightarrow> s)"

text \<open>\<open>x || d\<close> with a string default.\<close>

definition or_default :: "string option \<Rightarrow> string \<Rightarrow> string" where
  "or_default x d = (case x of None \<Rightarrow> d | Some s \<Rightarrow> if s = [] then d else s)"

text \<open>\<open>x || undefined\<close>.\<close>

definition or_undefined :: "string option \<Rightarrow> string option" where
  "or_undefined x = (if falsy x then None else x)"

text \<open>
  Strings are the bytes of their UTF-8 encoding, which is how the environment holds a
  variable. \<open>whiteSpaceLength s\<close> is the number of bytes of the white-space or line-terminator
  character that \<open>s\<close> begins with, 0 when it begins with none: TAB, LF, VT, FF, CR and SP in
  one byte, U+00A0 in two, and U+1680, U+2000 to U+200A, U+2028, U+2029, U+202F, U+205F, U+3000
  and U+FEFF in three.
\<close>

definition whiteSpaceLength :: "string \<Rightarrow> nat" where
  "whiteSpaceLength s =
     (if take 1 s \<in> set [[CHR 0x09], [CHR 0x0A], [CHR 0x0B], [CHR 0x0C], [CHR 0x0D], [CHR 0x20]]
      then 1
      else if take 2 s = [CHR 0xC2, CHR 0xA0] then 2
      else if take 3 s \<in> set
                [[CHR 0xE1, CHR 0x9A, CHR 0x80],
                 [CHR 0xE2, CHR 0x80, CHR 0x80], [CHR 0xE2, CHR 0x80, CHR 0x81],
                 [CHR 0xE2, CHR 0x80, CHR 0x82], [CHR 0xE2, CHR 0x80, CHR 0x83],
                 [CHR 0xE2, CHR 0x80, CHR 0x84], [CHR 0xE2, CHR 0x80, CHR 0x85],
                 [CHR 0xE2, CHR 0x80, CHR 0x86], [CHR 0xE2, CHR 0x80, CHR 0x87],
                 [CHR 0xE2, CHR 0x80, CHR 0x88], [CHR 0xE2, CHR 0x80, CHR 0x89],
                 [CHR 0xE2, CHR 0x80, CHR 0x8A],
                 [CHR 0xE2, CHR 0x80, CHR 0xA8], [CHR 0xE2, CHR 0x80, CHR 0xA9],
                 [CHR 0xE2, CHR 0x80, CHR 0xAF], [CHR 0xE2, CHR 0x81, CHR 0x9F],
                 [CHR 0xE3, CHR 0x80, CHR 0x80], [CHR 0xEF, CHR 0xBB, CHR 0xBF]]
      then 3
      else 0)"

text \<open>The string without its leading white space.\<close>

function skipWhiteSpace :: "string \<Rightarrow> string" where
  "skipWhiteSpace s =
     (if whiteSpaceLength s = 0 then s else skipWhiteSpace (drop (whiteSpaceLength s) s))"
  by pat_completeness auto
termination
proof (relation "measure length")
  show "wf (measure length)"
    by simp
next
  fix s :: string
  assume "whiteSpaceLength s \<noteq> 0"
  moreover have "whiteSpaceLength [] = 0"
    by (simp add: whiteSpaceLength_def)
  ultimately have "s \<noteq> []"
    by auto
  with \<open>whiteSpaceLength s \<noteq> 0\<close> show "(drop (whiteSpaceLength s) s, s) \<in> measure length"
    by simp
qed

declare skipWhiteSpace.simps [simp del]

definition digitValue :: "char \<Rightarrow> nat option" where
  "digitValue c =
     (let n = of_char c :: nat in
      if 48 \<le> n \<and> n \<le> 57 then Some (n - 48)
      else if 97 \<le> n \<and> n \<le> 102 then Some (n - 87)
      else if 65 \<le> n \<and> n \<le> 70 then Some (n - 55)
      else None)"

definition isRadixDigit :: "nat \<Rightarrow> char \<Rightarrow> bool" where
  "isRadixDigit r c = (case digitValue c of None \<Rightarrow> False | Some v \<Rightarrow> v < r)"

definition digitsValue :: "nat \<Rightarrow> string \<Rightarrow> int" where
  "digitsValue r ds = foldl (\<lambda>a c. a * int r + int (case digitValue c of None \<Rightarrow> 0 | Some v \<Rightarrow> v)) 0 ds"

text \<open>
  \<open>parseInt(s)\<close> with no radix: leading white space is skipped, then an optional sign, then
  an optional \<open>0x\<close> prefix selecting radix 16, then the longest run of digits; \<open>NaN\<close> (here
  \<open>None\<close>) when that run is empty.
\<close>

definition parseInt :: "string \<Rightarrow> int option" where
  "parseInt s =
     (let s1 = skipWhiteSpace s;
          sgn = (if take 1 s1 = ''-'' then - 1 else 1 :: int);
          s2 = (if take 1 s1 = ''-'' \<or> take 1 s1 = ''+'' then drop 1 s1 else s1);
          hex = (take 2 s2 = ''0x'' \<or> take 2 s2 = ''0X'');
          r = (if hex then 16 else 10 :: nat);
          s3 = (if hex then drop 2 s2 else s2);
          ds = takeWhile (isRadixDigit r) s3
      in if ds = [] then None else Some (sgn * digitsValue r ds))"

text \<open>
  \<open>new Date(ms)\<close>: an invalid date (\<open>None\<close>) when \<open>ms\<close> is \<open>NaN\<close> or beyond
  \<open>\<plusminus>8.64e15\<close>. Within that range every number the handlers compute is an integer below
  \<open>2^53\<close>, where JavaScript's arithmetic is exact; beyond it the date is invalid whatever
  the rounding. So numbers are integers here.
\<close>

definition newDate :: "int option \<Rightarrow> int option" where
  "newDate x =
     (case x of None \<Rightarrow> None
      | Some ms \<Rightarrow> if \<bar>ms\<bar> \<le> 8640000000000000 then Some ms else None)"

definition msPerDay :: int where
  "msPerDay = 24 * 60 * 60 * 1000"

text \<open>\<open>parseInt(process.env.REFRESH_TOKEN_EXP_DAYS || d)\<close>.\<close>

definition expDaysOr :: "env \<Rightarrow> string \<Rightarrow> int option" where
  "expDaysOr e d = parseInt (or_default (REFRESH_TOKEN_EXP_DAYS e) d)"

section \<open>The Prisma calls the handlers make\<close>

text \<open>
  Primary keys are assigned by the database; the model takes the successor of the largest key
  in the table, which is new whatever the table holds.
\<close>

definition fresh_id :: "nat list \<Rightarrow> nat" where
  "fresh_id ks = Suc (fold max ks 0)"

definition user_findUnique :: "deps \<Rightarrow> string \<Rightarrow> store \<Rightarrow> user option" where
  "user_findUnique d e db = find (\<lambda>u. emailEq d (email u) e) (users db)"

definition user_create :: "deps \<Rightarrow> string \<Rightarrow> string \<Rightarrow> string \<Rightarrow> int \<Rightarrow> store \<Rightarrow> store \<times> user" where
  "user_create d e h n now db =
     (let u = (userDefaults d)\<lparr>id_u := fresh_id (map id_u (users db)), email := e,
                 hashedPassword := h, name := n, createdAt := now, updatedAt := now\<rparr>
      in (db\<lparr>users := users db @ [u]\<rparr>, u))"

text \<open>
  \<open>refreshToken.create\<close>: a new row is not revoked. The call throws (\<open>None\<close>) when the expiry
  it is given is an invalid date.
\<close>

definition refreshToken_create ::
  "string \<Rightarrow> nat \<Rightarrow> int option \<Rightarrow> string option \<Rightarrow> string option \<Rightarrow> store \<Rightarrow> store option" where
  "refreshToken_create h uid exp i ua db =
     (case exp of None \<Rightarrow> None
      | Some t \<Rightarrow>
          Some (db\<lparr>refreshTokens := refreshTokens db @
            [\<lparr>id_rt = fresh_id (map id_rt (refreshTokens db)), tokenHash = h, userId = uid,
              expiresAt = t, revoked = False, ip = i, userAgent = ua\<rparr>]\<rparr>))"

text \<open>\<open>findFirst({ where: { tokenHash, revoked: false }, include: { user: true } })\<close>.\<close>

definition refreshToken_findFirst :: "string \<Rightarrow> store \<Rightarrow> (refreshToken \<times> user option) option" where
  "refreshToken_findFirst h db =
     (case find (\<lambda>t. tokenHash t = h \<and> \<not> revoked t) (refreshTokens db) of
        None \<Rightarrow> None
      | Some t \<Rightarrow> Some (t, find (\<lambda>u. id_u u = userId t) (users db)))"

text \<open>
  A column whose value in \<open>data\<close> is \<open>undefined\<close> is not written by an update: the row keeps
  what it held. (In \<open>create\<close> such a column is left out and takes its default, null.)
\<close>

definition kept :: "string option \<Rightarrow> string option \<Rightarrow> string option" where
  "kept given old = (case given of None \<Rightarrow> old | Some v \<Rightarrow> Some v)"

text \<open>\<open>updateMany({ where, data })\<close>: one statement; returns the number of rows it changed.\<close>

definition refreshToken_updateMany ::
  "(refreshToken \<Rightarrow> bool) \<Rightarrow> (refreshToken \<Rightarrow> refreshToken) \<Rightarrow> store \<Rightarrow> store \<times> nat" where
  "refreshToken_updateMany P f db =
     (db\<lparr>refreshTokens := map (\<lambda>t. if P t then f t else t) (refreshTokens db)\<rparr>,
      length (filter P (refreshTokens db)))"

text \<open>\<open>update({ where: { id }, data })\<close>: throws (\<open>None\<close>) when no row has the key.\<close>

definition refreshToken_update ::
  "nat \<Rightarrow> (refreshToken \<Rightarrow> refreshToken) \<Rightarrow> store \<Rightarrow> store option" where
  "refreshToken_update k f db =
     (if \<exists>t \<in> set (refreshTokens db). id_rt t = k
      then Some (db\<lparr>refreshTokens := map (\<lambda>t. if id_rt t = k then f t else t) (refreshTokens db)\<rparr>)
      else None)"

definition user_update :: "nat \<Rightarrow> (user \<Rightarrow> user) \<Rightarrow> store \<Rightarrow> store option" where
  "user_update k f db =
     (if \<exists>u \<in> set (users db). id_u u = k
      then Some (db\<lparr>users := map (\<lambda>u. if id_u u = k then f u else u) (users db)\<rparr>)
      else None)"

section \<open>Responses\<close>

definition json_message :: "nat \<Rightarrow> string \<Rightarrow> response" where
  "json_message c m = \<lparr>status = c, body = Message m, cookies = []\<rparr>"

text \<open>What every \<open>catch\<close> block sends.\<close>

definition internal_error :: response where
  "internal_error = json_message 500 ''Internal server error''"

definition opts :: "env \<Rightarrow> int option \<Rightarrow> cookie_opts" where
  "opts e m = \<lparr>httpOnly = True, secure = (NODE_ENV e = Some ''production''), sameSite = ''lax'',
               maxAge = m, domain = or_default (COOKIE_DOMAIN e) ''localhost''\<rparr>"

definition accessMaxAge :: int where
  "accessMaxAge = 15 * 60 * 1000"

definition toJson :: "user \<Rightarrow> int option \<Rightarrow> userJson" where
  "toJson u l = \<lparr>j_id = id_u u, j_email = email u, j_name = name u, j_bio = bio u,
                 j_emailVerified = emailVerified u, j_createdAt = createdAt u,
                 j_updatedAt = updatedAt u, j_lastLoginAt = l\<rparr>"

section \<open>The handlers\<close>

text \<open>
  Each handler takes the request, the clock reading \<open>now\<close> of the call (a handler that reads
  the clock more than once is given the one reading) and, where it draws one, the fresh
  secret \<open>crypto.randomBytes(40).toString('hex')\<close> gave it; it returns the database after the
  call and the response. A Prisma call that throws ends the handler in its \<open>catch\<close> block,
  with the writes made and the cookies set so far.
\<close>

definition register :: "deps \<Rightarrow> env \<Rightarrow> request \<Rightarrow> string \<Rightarrow> int \<Rightarrow> store \<Rightarrow> store \<times> response" where
  "register d e req refreshTok now db =
     (if falsy (body_email req) \<or> falsy (body_password req) \<or> falsy (body_name req)
      then (db, json_message 400 ''Email, password, and name are required'')
      else
        let em = present (body_email req);
            pw = present (body_password req);
            nm = present (body_name req)
        in case user_findUnique d em db of
             Some existing \<Rightarrow> (db, json_message 409 ''User already exists with the email'')
           | None \<Rightarrow>
               let (db1, newUser) = user_create d em (hashPassword d pw) nm now db;
                   accessToken = signAccessToken d (id_u newUser) ''user'' now;
                   tokenHash = sha256 d refreshTok
               in case refreshToken_create tokenHash (id_u newUser)
                         (newDate (map_option (\<lambda>n. now + n * msPerDay) (expDaysOr e ''30'')))
                         (or_undefined (req_ip req)) (or_undefined (header_user_agent req)) db1 of
                    None \<Rightarrow> (db1, internal_error)
                  | Some db2 \<Rightarrow>
                      (db2, \<lparr>status = 201,
                             body = AuthBody accessToken (toJson newUser (lastLoginAt newUser)),
                             cookies =
                               [SetCookie ''accessToken'' accessToken (opts e (Some accessMaxAge)),
                                SetCookie ''refreshToken'' refreshTok
                                  (opts e (map_option (\<lambda>n. n * msPerDay) (expDaysOr e ''30'')))]\<rparr>))"

definition login :: "deps \<Rightarrow> env \<Rightarrow> request \<Rightarrow> string \<Rightarrow> int \<Rightarrow> store \<Rightarrow> store \<times> response" where
  "login d e req refreshTok now db =
     (if falsy (body_email req) \<or> falsy (body_password req)
      then (db, json_message 400 ''Email and password are required'')
      else
        let em = present (body_email req);
            pw = present (body_password req)
        in case user_findUnique d em db of
             None \<Rightarrow> (db, json_message 401 ''Invalid email or password'')
           | Some u \<Rightarrow>
               if \<not> verifyPassword d (hashedPassword u) pw
               then (db, json_message 401 ''Invalid email or password'')
               else
                 let accessToken = signAccessToken d (id_u u) (role u) now;
                     tokenHash = sha256 d refreshTok
                 in case refreshToken_create tokenHash (id_u u)
                           (newDate (map_option (\<lambda>n. now + n * msPerDay) (expDaysOr e ''7'')))
                           (or_undefined (req_ip req)) (or_undefined (header_user_agent req)) db of
                      None \<Rightarrow> (db, internal_error)
                    | Some db1 \<Rightarrow>
                        let sent =
                              [SetCookie ''accessToken'' accessToken (opts e (Some accessMaxAge)),
                               SetCookie ''refreshToken'' refreshTok
                                 (opts e (map_option (\<lambda>n. n * msPerDay) (expDaysOr e ''30'')))]
                        in (case user_update (id_u u) (\<lambda>x. x\<lparr>lastLoginAt := Some now\<rparr>) db1 of
                              None \<Rightarrow> (db1, internal_error\<lparr>cookies := sent\<rparr>)
                            | Some db2 \<Rightarrow>
                                (db2, \<lparr>status = 200,
                                       body = AuthBody accessToken (toJson u (Some now)),
                                       cookies = sent\<rparr>)))"

text \<open>
  The second half of the refresh handler, from the comment \<open>Rotate: revoke old, create new\<close>
  on: the conditional write and what follows it. It is a definition of its own because the
  handler awaits between its read (\<open>findFirst\<close>) and this write, so the database the write
  meets may differ from the one the read saw.
\<close>

definition rotate ::
  "deps \<Rightarrow> env \<Rightarrow> request \<Rightarrow> string \<Rightarrow> int \<Rightarrow> refreshToken \<Rightarrow> user \<Rightarrow> string \<Rightarrow> store \<Rightarrow> store \<times> response" where
  "rotate d e req newRefreshToken now existing u tokenHash' db =
     (let newHash = sha256 d newRefreshToken;
          expDays = expDaysOr e ''7''
      in case newDate (map_option (\<lambda>n. now + n * msPerDay) expDays) of
           None \<Rightarrow> (db, internal_error)
         | Some exp \<Rightarrow>
             let (db1, count) =
                   refreshToken_updateMany
                     (\<lambda>t. id_rt t = id_rt existing \<and> tokenHash t = tokenHash' \<and> \<not> revoked t)
                     (\<lambda>t. t\<lparr>tokenHash := newHash, expiresAt := exp,
                             ip := kept (or_undefined (req_ip req)) (ip t),
                             userAgent := kept (or_undefined (header_user_agent req)) (userAgent t)\<rparr>) db
             in if count = 0
                then (db1, json_message 401 ''Invalid or already rotated refresh token'')
                else
                  let accessToken = signAccessToken d (id_u u) (role u) now
                  in (db1, \<lparr>status = 200, body = TokenBody accessToken,
                            cookies =
                              [SetCookie ''accessToken'' accessToken (opts e (Some accessMaxAge)),
                               SetCookie ''refreshToken'' newRefreshToken
                                 (opts e (map_option (\<lambda>n. n * msPerDay) expDays))]\<rparr>))"

definition refresh :: "deps \<Rightarrow> env \<Rightarrow> request \<Rightarrow> string \<Rightarrow> int \<Rightarrow> store \<Rightarrow> store \<times> response" where
  "refresh d e req newRefreshToken now db =
     (if falsy (cookie_refreshToken req)
      then (db, json_message 401 ''No refresh token'')
      else
        let rt = present (cookie_refreshToken req);
            tokenHash' = sha256 d rt
        in case refreshToken_findFirst tokenHash' db of
             None \<Rightarrow> (db, json_message 401 ''Invalid refresh token'')
           | Some (existing, None) \<Rightarrow> (db, json_message 401 ''Invalid refresh token'')
           | Some (existing, Some u) \<Rightarrow>
               if expiresAt existing \<le> now
               then (case refreshToken_update (id_rt existing) (\<lambda>t. t\<lparr>revoked := True\<rparr>) db of
                       None \<Rightarrow> (db, internal_error)
                     | Some db1 \<Rightarrow>
                         (db1, \<lparr>status = 401, body = Message ''Refresh token expired'',
                                cookies = [ClearCookie ''refreshToken'' (opts e None)]\<rparr>))
               else rotate d e req newRefreshToken now existing u tokenHash' db)"

definition logout :: "deps \<Rightarrow> env \<Rightarrow> request \<Rightarrow> store \<Rightarrow> store \<times> response" where
  "logout d e req db =
     (let db1 = (if falsy (cookie_refreshToken req) then db
                 else fst (refreshToken_updateMany
                             (\<lambda>t. tokenHash t = sha256 d (present (cookie_refreshToken req))
                                   \<and> \<not> revoked t)
                             (\<lambda>t. t\<lparr>revoked := True\<rparr>) db))
      in (db1, \<lparr>status = 200, body = Message ''Logged out successfully'',
                cookies = [ClearCookie ''accessToken'' (opts e None),
                           ClearCookie ''refreshToken'' (opts e None)]\<rparr>))"

section \<open>Sequences of calls\<close>

text \<open>
  The router dispatches each request to one handler. A call carries the request with the
  fresh secret and the clock reading its handler is given.
\<close>

datatype call =
  Register request string int
| Login request string int
| Refresh request string int
| Logout request

fun dispatch :: "deps \<Rightarrow> env \<Rightarrow> store \<Rightarrow> call \<Rightarrow> store \<times> response" where
  "dispatch d e db (Register req s now) = register d e req s now db"
| "dispatch d e db (Login req s now) = login d e req s now db"
| "dispatch d e db (Refresh req s now) = refresh d e req s now db"
| "dispatch d e db (Logout req) = logout d e req db"

fun run :: "deps \<Rightarrow> env \<Rightarrow> store \<Rightarrow> call list \<Rightarrow> store" where
  "run d e db [] = db"
| "run d e db (c # cs) = run d e (fst (dispatch d e db c)) cs"

text \<open>The secret drawn while serving a call, if its handler draws one.\<close>

fun drawn :: "call \<Rightarrow> string option" where
  "drawn (Register req s now) = Some s"
| "drawn (Login req s now) = Some s"
| "drawn (Refresh req s now) = Some s"
| "drawn (Logout req) = None"




text \<open>A row that \<open>findFirst\<close> can return for the digest \<open>h\<close>: same digest, not revoked.\<close>

definition live :: "string \<Rightarrow> store \<Rightarrow> bool" where
  "live h db = (\<exists>t \<in> set (refreshTokens db). tokenHash t = h \<and> \<not> revoked t)"

section \<open>Fixtures\<close>

text \<open>
  Concrete collaborators for running the handlers: a digest that prefixes its input (no two
  inputs collide), a second one that keeps the first character only (many collide), and a
  \<open>User\<close> table whose default role is not \<open>user\<close> and whose \<open>email\<close> column is a plain
  string column.
\<close>

definition demo_deps :: deps where
  "demo_deps =
     \<lparr>sha256 = (\<lambda>s. CHR ''#'' # s), hashPassword = (\<lambda>p. ''argon:'' @ p),
      verifyPassword = (\<lambda>h p. h = ''argon:'' @ p), signAccessToken = (\<lambda>i r t. r),
      userDefaults = \<lparr>id_u = 0, email = [], hashedPassword = [], name = [], bio = None,
        emailVerified = False, role = ''admin'', createdAt = 0, updatedAt = 0,
        lastLoginAt = None\<rparr>,
      emailEq = (=)\<rparr>"

definition weak_deps :: deps where
  "weak_deps = demo_deps\<lparr>sha256 := take 1\<rparr>"

definition demo_env :: env where
  "demo_env = \<lparr>REFRESH_TOKEN_EXP_DAYS = None, NODE_ENV = None, COOKIE_DOMAIN = None\<rparr>"

definition form :: "string \<Rightarrow> string \<Rightarrow> string \<Rightarrow> request" where
  "form em pw nm =
     \<lparr>body_email = Some em, body_password = Some pw, body_name = Some nm,
      cookie_refreshToken = None, req_ip = None, header_user_agent = None\<rparr>"

definition with_cookie :: "string \<Rightarrow> request" where
  "with_cookie s =
     \<lparr>body_email = None, body_password = None, body_name = None,
      cookie_refreshToken = Some s, req_ip = None, header_user_agent = None\<rparr>"

definition empty_db :: store where
  "empty_db = \<lparr>users = [], refreshTokens = []\<rparr>"

text \<open>The database after \<open>a@x.com\<close> registered at time 1000 with the secret \<open>s1\<close>.\<close>

definition one_user_db :: store where
  "one_user_db = fst (register demo_deps demo_env (form ''a@x.com'' ''P@ssw0rd!'' ''A'') ''s1'' 1000 empty_db)"

text \<open>Calls that follow: a login, a replayed refresh and a logout of another session.\<close>

definition later_calls :: "call list" where
  "later_calls =
     [Login (form ''a@x.com'' ''P@ssw0rd!'' []) ''s4'' 4000,
      Refresh (with_cookie ''s1'') ''s5'' 5000,
      Logout (with_cookie ''s9'')]"


section \<open>Login: the two causes of failure\<close>

text \<open>
  Claim C6. A login whose email matches no user and a login whose password fails
  verification against the stored digest get the same answer, status 401 with the message
  \<open>Invalid email or password\<close> and no cookie, and both leave the database as it was: the
  response does not tell the two causes apart.
\<close>

theorem login_failure_uniform:
  assumes "\<not> falsy (body_email r1)" "\<not> falsy (body_password r1)"
      and "\<not> falsy (body_email r2)" "\<not> falsy (body_password r2)"
      and "user_findUnique d (present (body_email r1)) db1 = None"
      and "user_findUnique d (present (body_email r2)) db2 = Some u"
      and "\<not> verifyPassword d (hashedPassword u) (present (body_password r2))"
  shows "login d e r1 s1 t1 db1 = (db1, json_message 401 ''Invalid email or password'')
       \<and> login d e r2 s2 t2 db2 = (db2, json_message 401 ''Invalid email or password'')
       \<and> snd (login d e r1 s1 t1 db1) = snd (login d e r2 s2 t2 db2)"
  using assms by (simp add: login_def)

theorem login_failure_uniform_witness:
  "user_findUnique demo_deps ''b@x.com'' one_user_db = None
   \<and> user_findUnique demo_deps ''a@x.com'' one_user_db = Some (hd (users one_user_db))
   \<and> \<not> verifyPassword demo_deps (hashedPassword (hd (users one_user_db))) ''wrong''
   \<and> login demo_deps demo_env (form ''b@x.com'' ''P@ssw0rd!'' []) ''s2'' 2000 one_user_db
     = (one_user_db, json_message 401 ''Invalid email or password'')
   \<and> login demo_deps demo_env (form ''a@x.com'' ''wrong'' []) ''s3'' 3000 one_user_db
     = (one_user_db, json_message 401 ''Invalid email or password'')"
proof -
  have h1: "\<not> falsy (body_email (form ''b@x.com'' ''P@ssw0rd!'' []))"
    and h2: "\<not> falsy (body_password (form ''b@x.com'' ''P@ssw0rd!'' []))"
    and h3: "\<not> falsy (body_email (form ''a@x.com'' ''wrong'' []))"
    and h4: "\<not> falsy (body_password (form ''a@x.com'' ''wrong'' []))"
    by (simp_all add: form_def falsy_def)
  have h5: "user_findUnique demo_deps (present (body_email (form ''b@x.com'' ''P@ssw0rd!'' []))) one_user_db = None"
    by code_simp
  have h6: "user_findUnique demo_deps (present (body_email (form ''a@x.com'' ''wrong'' []))) one_user_db
              = Some (hd (users one_user_db))"
    by code_simp
  have h7: "\<not> verifyPassword demo_deps (hashedPassword (hd (users one_user_db)))
                (present (body_password (form ''a@x.com'' ''wrong'' [])))"
    by code_simp
  show ?thesis
    using login_failure_uniform [OF h1 h2 h3 h4 h5 h6 h7, of demo_env "''s2''" 2000 "''s3''" 3000]
      h5 h6 h7
    by (simp add: form_def present_def)
qed

section \<open>Registration: the password check\<close>

text \<open>
  Claim C7, as stated, asks that a password below a minimum strength be refused. The
  handler checks presence only: a one-character password registers, the user row is written
  and the response is 201.
\<close>

theorem register_weak_password_accepted:
  "status (snd (register demo_deps demo_env (form ''a@x.com'' ''a'' ''A'') ''s1'' 1000 empty_db)) = 201
   \<and> map email (users (fst (register demo_deps demo_env (form ''a@x.com'' ''a'' ''A'') ''s1'' 1000 empty_db)))
       = [''a@x.com'']
   \<and> map hashedPassword (users (fst (register demo_deps demo_env (form ''a@x.com'' ''a'' ''A'') ''s1'' 1000 empty_db)))
       = [hashPassword demo_deps ''a'']"
  by code_simp

text \<open>
  Claim C7, amended. A registration whose password is absent or empty is refused with
  status 400 and the message \<open>Email, password, and name are required\<close>; the database is
  unchanged (no user is created, no refresh-token row is written) and the response sets no
  cookie and carries no token.
\<close>

theorem register_password_required:
  assumes "falsy (body_password req)"
  shows "register d e req s now db = (db, json_message 400 ''Email, password, and name are required'')"
  using assms by (simp add: register_def)

theorem register_password_required_witness:
  "falsy (body_password (form ''a@x.com'' [] ''A''))
   \<and> register demo_deps demo_env (form ''a@x.com'' [] ''A'') ''s1'' 1000 empty_db
       = (empty_db, \<lparr>status = 400, body = Message ''Email, password, and name are required'', cookies = []\<rparr>)"
proof -
  have h: "falsy (body_password (form ''a@x.com'' [] ''A''))"
    by (simp add: form_def falsy_def)
  show ?thesis
    using register_password_required [OF h, of demo_deps demo_env "''s1''" 1000 empty_db] h
    by (simp add: json_message_def)
qed

section \<open>What a successful call did\<close>

text \<open>
  Each handler has one path to its success status. Reading the status back gives the row it
  wrote, the lookups that succeeded on the way and the whole response.
\<close>

lemma register_ok:
  assumes "status (snd (register d e req s now db)) = 201"
  shows "\<exists>n. expDaysOr e ''30'' = Some n
     \<and> user_findUnique d (present (body_email req)) db = None
     \<and> register d e req s now db =
         (\<lparr>users = users db @ [snd (user_create d (present (body_email req))
                      (hashPassword d (present (body_password req))) (present (body_name req)) now db)],
           refreshTokens = refreshTokens db @
             [\<lparr>id_rt = fresh_id (map id_rt (refreshTokens db)), tokenHash = sha256 d s,
               userId = fresh_id (map id_u (users db)), expiresAt = now + n * msPerDay,
               revoked = False, ip = or_undefined (req_ip req),
               userAgent = or_undefined (header_user_agent req)\<rparr>]\<rparr>,
          \<lparr>status = 201,
            body = AuthBody (signAccessToken d (fresh_id (map id_u (users db))) ''user'' now)
                     (toJson (snd (user_create d (present (body_email req))
                      (hashPassword d (present (body_password req))) (present (body_name req)) now db))
                        (lastLoginAt (userDefaults d))),
            cookies = [SetCookie ''accessToken''
                         (signAccessToken d (fresh_id (map id_u (users db))) ''user'' now)
                         (opts e (Some accessMaxAge)),
                       SetCookie ''refreshToken'' s (opts e (Some (n * msPerDay)))]\<rparr>)"
  using assms
  by (auto simp: register_def json_message_def internal_error_def Let_def user_create_def
                 refreshToken_create_def newDate_def
           split: if_splits option.splits prod.splits)

lemma login_ok:
  assumes "status (snd (login d e req s now db)) = 200"
  shows "\<exists>u n. user_findUnique d (present (body_email req)) db = Some u
     \<and> verifyPassword d (hashedPassword u) (present (body_password req))
     \<and> expDaysOr e ''7'' = Some n
     \<and> login d e req s now db =
         (\<lparr>users = map (\<lambda>x. if id_u x = id_u u then x\<lparr>lastLoginAt := Some now\<rparr> else x) (users db),
           refreshTokens = refreshTokens db @
             [\<lparr>id_rt = fresh_id (map id_rt (refreshTokens db)), tokenHash = sha256 d s,
               userId = id_u u, expiresAt = now + n * msPerDay,
               revoked = False, ip = or_undefined (req_ip req),
               userAgent = or_undefined (header_user_agent req)\<rparr>]\<rparr>,
          \<lparr>status = 200,
            body = AuthBody (signAccessToken d (id_u u) (role u) now) (toJson u (Some now)),
            cookies = [SetCookie ''accessToken'' (signAccessToken d (id_u u) (role u) now)
                         (opts e (Some accessMaxAge)),
                       SetCookie ''refreshToken'' s
                         (opts e (map_option (\<lambda>n. n * msPerDay) (expDaysOr e ''30'')))]\<rparr>)"
  using assms
  by (auto simp: login_def json_message_def internal_error_def Let_def user_update_def
                 refreshToken_create_def newDate_def
           split: if_splits option.splits prod.splits)

lemma refresh_ok:
  assumes "status (snd (refresh d e req s now db)) = 200"
  shows "\<exists>t u n. \<not> falsy (cookie_refreshToken req)
     \<and> refreshToken_findFirst (sha256 d (present (cookie_refreshToken req))) db = Some (t, Some u)
     \<and> now < expiresAt t
     \<and> expDaysOr e ''7'' = Some n
     \<and> refresh d e req s now db =
         (db\<lparr>refreshTokens :=
               map (\<lambda>x. if id_rt x = id_rt t \<and> tokenHash x = sha256 d (present (cookie_refreshToken req))
                           \<and> \<not> revoked x
                         then x\<lparr>tokenHash := sha256 d s, expiresAt := now + n * msPerDay,
                                 ip := kept (or_undefined (req_ip req)) (ip x),
                                 userAgent := kept (or_undefined (header_user_agent req)) (userAgent x)\<rparr>
                         else x) (refreshTokens db)\<rparr>,
          \<lparr>status = 200,
            body = TokenBody (signAccessToken d (id_u u) (role u) now),
            cookies = [SetCookie ''accessToken'' (signAccessToken d (id_u u) (role u) now)
                         (opts e (Some accessMaxAge)),
                       SetCookie ''refreshToken'' s (opts e (Some (n * msPerDay)))]\<rparr>)"
  using assms
  by (auto simp: refresh_def rotate_def json_message_def internal_error_def Let_def
                 refreshToken_updateMany_def refreshToken_update_def newDate_def
           split: if_splits option.splits prod.splits)

section \<open>The role an access token carries\<close>

text \<open>
  Claim C10. A successful registration signs the access token, in the body and in the
  \<open>accessToken\<close> cookie, for the new user's id and the literal role \<open>user\<close>, whatever role
  the table's default gave the stored row; a successful login signs it for the role of the
  user found by email, and a successful refresh for the role of the user who owns the matched
  refresh-token row.
\<close>
theorem access_token_roles:
  "(status (snd (register d e req s now db)) = 201 \<longrightarrow>
      (\<exists>u j. users (fst (register d e req s now db)) = users db @ [u]
         \<and> role u = role (userDefaults d)
         \<and> body (snd (register d e req s now db)) = AuthBody (signAccessToken d (id_u u) ''user'' now) j
         \<and> hd (cookies (snd (register d e req s now db)))
             = SetCookie ''accessToken'' (signAccessToken d (id_u u) ''user'' now) (opts e (Some accessMaxAge))))
   \<and> (status (snd (login d e req s now db)) = 200 \<longrightarrow>
      (\<exists>u j. user_findUnique d (present (body_email req)) db = Some u
         \<and> body (snd (login d e req s now db)) = AuthBody (signAccessToken d (id_u u) (role u) now) j
         \<and> hd (cookies (snd (login d e req s now db)))
             = SetCookie ''accessToken'' (signAccessToken d (id_u u) (role u) now) (opts e (Some accessMaxAge))))
   \<and> (status (snd (refresh d e req s now db)) = 200 \<longrightarrow>
      (\<exists>t u. refreshToken_findFirst (sha256 d (present (cookie_refreshToken req))) db = Some (t, Some u)
         \<and> body (snd (refresh d e req s now db)) = TokenBody (signAccessToken d (id_u u) (role u) now)
         \<and> hd (cookies (snd (refresh d e req s now db)))
             = SetCookie ''accessToken'' (signAccessToken d (id_u u) (role u) now) (opts e (Some accessMaxAge))))"
proof (intro conjI impI)
  assume "status (snd (register d e req s now db)) = 201"
  from register_ok [OF this] obtain n where
    r: "register d e req s now db =
         (\<lparr>users = users db @ [snd (user_create d (present (body_email req))
                      (hashPassword d (present (body_password req))) (present (body_name req)) now db)],
           refreshTokens = refreshTokens db @
             [\<lparr>id_rt = fresh_id (map id_rt (refreshTokens db)), tokenHash = sha256 d s,
               userId = fresh_id (map id_u (users db)), expiresAt = now + n * msPerDay,
               revoked = False, ip = or_undefined (req_ip req),
               userAgent = or_undefined (header_user_agent req)\<rparr>]\<rparr>,
          \<lparr>status = 201,
            body = AuthBody (signAccessToken d (fresh_id (map id_u (users db))) ''user'' now)
                     (toJson (snd (user_create d (present (body_email req))
                      (hashPassword d (present (body_password req))) (present (body_name req)) now db))
                        (lastLoginAt (userDefaults d))),
            cookies = [SetCookie ''accessToken''
                         (signAccessToken d (fresh_id (map id_u (users db))) ''user'' now)
                         (opts e (Some accessMaxAge)),
                       SetCookie ''refreshToken'' s (opts e (Some (n * msPerDay)))]\<rparr>)"
    by blast
  show "\<exists>u j. users (fst (register d e req s now db)) = users db @ [u]
         \<and> role u = role (userDefaults d)
         \<and> body (snd (register d e req s now db)) = AuthBody (signAccessToken d (id_u u) ''user'' now) j
         \<and> hd (cookies (snd (register d e req s now db)))
             = SetCookie ''accessToken'' (signAccessToken d (id_u u) ''user'' now) (opts e (Some accessMaxAge))"
    unfolding r by (simp add: user_create_def Let_def)
next
  assume "status (snd (login d e req s now db)) = 200"
  from login_ok [OF this]
  show "\<exists>u j. user_findUnique d (present (body_email req)) db = Some u
         \<and> body (snd (login d e req s now db)) = AuthBody (signAccessToken d (id_u u) (role u) now) j
         \<and> hd (cookies (snd (login d e req s now db)))
             = SetCookie ''accessToken'' (signAccessToken d (id_u u) (role u) now) (opts e (Some accessMaxAge))"
    by force
next
  assume "status (snd (refresh d e req s now db)) = 200"
  from refresh_ok [OF this]
  show "\<exists>t u. refreshToken_findFirst (sha256 d (present (cookie_refreshToken req))) db = Some (t, Some u)
         \<and> body (snd (refresh d e req s now db)) = TokenBody (signAccessToken d (id_u u) (role u) now)
         \<and> hd (cookies (snd (refresh d e req s now db)))
             = SetCookie ''accessToken'' (signAccessToken d (id_u u) (role u) now) (opts e (Some accessMaxAge))"
    by force
qed

theorem access_token_roles_witness:
  "status (snd (register demo_deps demo_env (form ''a@x.com'' ''P@ssw0rd!'' ''A'') ''s1'' 1000 empty_db)) = 201
   \<and> map role (users one_user_db) = [''admin'']
   \<and> body (snd (register demo_deps demo_env (form ''a@x.com'' ''P@ssw0rd!'' ''A'') ''s1'' 1000 empty_db))
       = AuthBody ''user'' (toJson (hd (users one_user_db)) None)
   \<and> status (snd (login demo_deps demo_env (form ''a@x.com'' ''P@ssw0rd!'' []) ''s2'' 2000 one_user_db)) = 200
   \<and> body (snd (login demo_deps demo_env (form ''a@x.com'' ''P@ssw0rd!'' []) ''s2'' 2000 one_user_db))
       = AuthBody ''admin'' (toJson (hd (users one_user_db)) (Some 2000))
   \<and> status (snd (refresh demo_deps demo_env (with_cookie ''s1'') ''s3'' 3000 one_user_db)) = 200
   \<and> body (snd (refresh demo_deps demo_env (with_cookie ''s1'') ''s3'' 3000 one_user_db))
       = TokenBody ''admin''"
proof -
  have h1: "status (snd (register demo_deps demo_env (form ''a@x.com'' ''P@ssw0rd!'' ''A'') ''s1'' 1000 empty_db)) = 201"
    by code_simp
  have h2: "status (snd (login demo_deps demo_env (form ''a@x.com'' ''P@ssw0rd!'' []) ''s2'' 2000 one_user_db)) = 200"
    by code_simp
  have h3: "status (snd (refresh demo_deps demo_env (with_cookie ''s1'') ''s3'' 3000 one_user_db)) = 200"
    by code_simp
  have r: "map role (users one_user_db) = [''admin'']"
    by code_simp
  have b1: "body (snd (register demo_deps demo_env (form ''a@x.com'' ''P@ssw0rd!'' ''A'') ''s1'' 1000 empty_db))
       = AuthBody ''user'' (toJson (hd (users one_user_db)) None)"
    by code_simp
  have b2: "body (snd (login demo_deps demo_env (form ''a@x.com'' ''P@ssw0rd!'' []) ''s2'' 2000 one_user_db))
       = AuthBody ''admin'' (toJson (hd (users one_user_db)) (Some 2000))"
    by code_simp
  have b3: "body (snd (refresh demo_deps demo_env (with_cookie ''s1'') ''s3'' 3000 one_user_db))
       = TokenBody ''admin''"
    by code_simp
  note w1 = access_token_roles [of demo_deps demo_env "form ''a@x.com'' ''P@ssw0rd!'' ''A''" "''s1''" 1000 empty_db,
        THEN conjunct1, rule_format, OF h1]
  note w2 = access_token_roles [of demo_deps demo_env "form ''a@x.com'' ''P@ssw0rd!'' []" "''s2''" 2000 one_user_db,
        THEN conjunct2, THEN conjunct1, rule_format, OF h2]
  note w3 = access_token_roles [of demo_deps demo_env "with_cookie ''s1''" "''s3''" 3000 one_user_db,
        THEN conjunct2, THEN conjunct2, rule_format, OF h3]
  from w1 w2 w3 show ?thesis
    by (intro conjI h1 r b1 h2 b2 h3 b3)
qed

section \<open>The default lifetime of a refresh token\<close>

text \<open>With \<open>REFRESH_TOKEN_EXP_DAYS\<close> unset, each handler parses its own default.\<close>

lemma parseInt_30: "parseInt ''30'' = Some 30"
  by code_simp

lemma parseInt_7: "parseInt ''7'' = Some 7"
  by code_simp

lemma expDaysOr_unset:
  "REFRESH_TOKEN_EXP_DAYS e = None \<Longrightarrow> expDaysOr e ''30'' = Some 30"
  "REFRESH_TOKEN_EXP_DAYS e = None \<Longrightarrow> expDaysOr e ''7'' = Some 7"
  by (simp_all add: expDaysOr_def or_default_def parseInt_30 parseInt_7)

lemma findFirst_Some:
  assumes "refreshToken_findFirst h db = Some (t, u)"
  shows "t \<in> set (refreshTokens db) \<and> tokenHash t = h \<and> \<not> revoked t"
  using assms
  by (auto simp: refreshToken_findFirst_def find_Some_iff split: option.splits)

text \<open>
  Claim C8 asks for an expiry 30 days after the call in all three handlers when no lifetime
  is configured. What the handlers do: the row a successful registration writes expires 30
  days after the call; the row a successful login writes, and the row a successful refresh
  rotates, expire 7 days after the call.
\<close>

theorem default_ttl_per_handler:
  assumes "REFRESH_TOKEN_EXP_DAYS e = None"
  shows "(status (snd (register d e req s now db)) = 201 \<longrightarrow>
           map expiresAt (refreshTokens (fst (register d e req s now db)))
             = map expiresAt (refreshTokens db) @ [now + 30 * msPerDay])
       \<and> (status (snd (login d e req s now db)) = 200 \<longrightarrow>
           map expiresAt (refreshTokens (fst (login d e req s now db)))
             = map expiresAt (refreshTokens db) @ [now + 7 * msPerDay])
       \<and> (status (snd (refresh d e req s now db)) = 200 \<longrightarrow>
           (\<exists>t \<in> set (refreshTokens (fst (refresh d e req s now db))).
              tokenHash t = sha256 d s \<and> expiresAt t = now + 7 * msPerDay))"
proof (intro conjI impI)
  assume "status (snd (register d e req s now db)) = 201"
  from register_ok [OF this] expDaysOr_unset(1) [OF assms]
  show "map expiresAt (refreshTokens (fst (register d e req s now db)))
             = map expiresAt (refreshTokens db) @ [now + 30 * msPerDay]"
    by auto
next
  assume "status (snd (login d e req s now db)) = 200"
  from login_ok [OF this] expDaysOr_unset(2) [OF assms]
  show "map expiresAt (refreshTokens (fst (login d e req s now db)))
             = map expiresAt (refreshTokens db) @ [now + 7 * msPerDay]"
    by auto
next
  assume "status (snd (refresh d e req s now db)) = 200"
  from refresh_ok [OF this] obtain t u n where
    f: "refreshToken_findFirst (sha256 d (present (cookie_refreshToken req))) db = Some (t, Some u)"
    and n: "expDaysOr e ''7'' = Some n"
    and r: "refresh d e req s now db =
         (db\<lparr>refreshTokens :=
               map (\<lambda>x. if id_rt x = id_rt t \<and> tokenHash x = sha256 d (present (cookie_refreshToken req))
                           \<and> \<not> revoked x
                         then x\<lparr>tokenHash := sha256 d s, expiresAt := now + n * msPerDay,
                                 ip := kept (or_undefined (req_ip req)) (ip x),
                                 userAgent := kept (or_undefined (header_user_agent req)) (userAgent x)\<rparr>
                         else x) (refreshTokens db)\<rparr>,
          \<lparr>status = 200,
            body = TokenBody (signAccessToken d (id_u u) (role u) now),
            cookies = [SetCookie ''accessToken'' (signAccessToken d (id_u u) (role u) now)
                         (opts e (Some accessMaxAge)),
                       SetCookie ''refreshToken'' s (opts e (Some (n * msPerDay)))]\<rparr>)"
    by blast
  from n expDaysOr_unset(2) [OF assms] have n7: "n = 7" by simp
  from findFirst_Some [OF f] have t: "t \<in> set (refreshTokens db)"
    "tokenHash t = sha256 d (present (cookie_refreshToken req))" "\<not> revoked t"
    by simp_all
  show "\<exists>t \<in> set (refreshTokens (fst (refresh d e req s now db))).
              tokenHash t = sha256 d s \<and> expiresAt t = now + 7 * msPerDay"
    unfolding r using t n7
    by (auto intro!: bexI [of _ "t\<lparr>tokenHash := sha256 d s, expiresAt := now + 7 * msPerDay,
                                 ip := kept (or_undefined (req_ip req)) (ip t),
                                 userAgent := kept (or_undefined (header_user_agent req)) (userAgent t)\<rparr>"]
             simp: image_iff intro: bexI [of _ t])
qed

theorem default_ttl_per_handler_witness:
  "REFRESH_TOKEN_EXP_DAYS demo_env = None
   \<and> status (snd (register demo_deps demo_env (form ''a@x.com'' ''P@ssw0rd!'' ''A'') ''s1'' 1000 empty_db)) = 201
   \<and> map expiresAt (refreshTokens one_user_db) = [1000 + 30 * msPerDay]
   \<and> status (snd (login demo_deps demo_env (form ''a@x.com'' ''P@ssw0rd!'' []) ''s2'' 2000 one_user_db)) = 200
   \<and> map expiresAt (refreshTokens (fst (login demo_deps demo_env (form ''a@x.com'' ''P@ssw0rd!'' []) ''s2'' 2000 one_user_db)))
       = [1000 + 30 * msPerDay, 2000 + 7 * msPerDay]
   \<and> status (snd (refresh demo_deps demo_env (with_cookie ''s1'') ''s3'' 3000 one_user_db)) = 200
   \<and> map expiresAt (refreshTokens (fst (refresh demo_deps demo_env (with_cookie ''s1'') ''s3'' 3000 one_user_db)))
       = [3000 + 7 * msPerDay]"
proof -
  have h0: "REFRESH_TOKEN_EXP_DAYS demo_env = None"
    by (simp add: demo_env_def)
  have h1: "status (snd (register demo_deps demo_env (form ''a@x.com'' ''P@ssw0rd!'' ''A'') ''s1'' 1000 empty_db)) = 201"
    by code_simp
  have h2: "status (snd (login demo_deps demo_env (form ''a@x.com'' ''P@ssw0rd!'' []) ''s2'' 2000 one_user_db)) = 200"
    by code_simp
  have h3: "status (snd (refresh demo_deps demo_env (with_cookie ''s1'') ''s3'' 3000 one_user_db)) = 200"
    by code_simp
  have e0: "refreshTokens empty_db = []"
    by (simp add: empty_db_def)
  have e1: "map expiresAt (refreshTokens one_user_db) = [1000 + 30 * msPerDay]"
    using default_ttl_per_handler [OF h0, of demo_deps "form ''a@x.com'' ''P@ssw0rd!'' ''A''" "''s1''" 1000 empty_db,
        THEN conjunct1, rule_format, OF h1]
    by (simp add: one_user_db_def e0)
  have e2: "map expiresAt (refreshTokens (fst (login demo_deps demo_env (form ''a@x.com'' ''P@ssw0rd!'' []) ''s2'' 2000 one_user_db)))
       = [1000 + 30 * msPerDay, 2000 + 7 * msPerDay]"
    using default_ttl_per_handler [OF h0, of demo_deps "form ''a@x.com'' ''P@ssw0rd!'' []" "''s2''" 2000 one_user_db,
        THEN conjunct2, THEN conjunct1, rule_format, OF h2]
    by (simp add: e1)
  have e3: "map expiresAt (refreshTokens (fst (refresh demo_deps demo_env (with_cookie ''s1'') ''s3'' 3000 one_user_db)))
       = [3000 + 7 * msPerDay]"
    by code_simp
  show ?thesis
    by (intro conjI h0 h1 e1 h2 e2 h3 e3)
qed

section \<open>What of a fresh secret reaches the database\<close>

lemma register_digest_only:
  "sha256 d s1 = sha256 d s2 \<Longrightarrow> fst (register d e req s1 now db) = fst (register d e req s2 now db)"
  by (auto simp: register_def Let_def split: option.splits prod.splits)

lemma login_digest_only:
  "sha256 d s1 = sha256 d s2 \<Longrightarrow> fst (login d e req s1 now db) = fst (login d e req s2 now db)"
  by (auto simp: login_def Let_def split: option.splits prod.splits)

lemma refresh_digest_only:
  "sha256 d s1 = sha256 d s2 \<Longrightarrow> fst (refresh d e req s1 now db) = fst (refresh d e req s2 now db)"
  by (auto simp: refresh_def rotate_def Let_def split: option.splits prod.splits)

text \<open>
  Claim C4. The database after a registration, a login or a refresh depends on the secret
  drawn for the new refresh token through its digest alone: two secrets with the same digest
  leave the same database, so nothing of the secret beyond its digest is stored. On success
  the digest is what the new row (register, login) or the rotated row (refresh) holds as
  \<open>tokenHash\<close>.
\<close>
theorem secret_stored_as_digest_only:
  assumes "sha256 d s1 = sha256 d s2"
  shows "fst (register d e req s1 now db) = fst (register d e req s2 now db)
       \<and> fst (login d e req s1 now db) = fst (login d e req s2 now db)
       \<and> fst (refresh d e req s1 now db) = fst (refresh d e req s2 now db)
       \<and> (status (snd (register d e req s1 now db)) = 201 \<longrightarrow>
            (\<exists>t. refreshTokens (fst (register d e req s1 now db)) = refreshTokens db @ [t]
                 \<and> tokenHash t = sha256 d s1))
       \<and> (status (snd (login d e req s1 now db)) = 200 \<longrightarrow>
            (\<exists>t. refreshTokens (fst (login d e req s1 now db)) = refreshTokens db @ [t]
                 \<and> tokenHash t = sha256 d s1))
       \<and> (status (snd (refresh d e req s1 now db)) = 200 \<longrightarrow>
            (\<exists>t \<in> set (refreshTokens (fst (refresh d e req s1 now db))). tokenHash t = sha256 d s1))"
proof (intro conjI impI)
  show "fst (register d e req s1 now db) = fst (register d e req s2 now db)"
    by (rule register_digest_only [OF assms])
  show "fst (login d e req s1 now db) = fst (login d e req s2 now db)"
    by (rule login_digest_only [OF assms])
  show "fst (refresh d e req s1 now db) = fst (refresh d e req s2 now db)"
    by (rule refresh_digest_only [OF assms])
next
  assume "status (snd (register d e req s1 now db)) = 201"
  from register_ok [OF this]
  show "\<exists>t. refreshTokens (fst (register d e req s1 now db)) = refreshTokens db @ [t]
             \<and> tokenHash t = sha256 d s1"
    by auto
next
  assume "status (snd (login d e req s1 now db)) = 200"
  from login_ok [OF this]
  show "\<exists>t. refreshTokens (fst (login d e req s1 now db)) = refreshTokens db @ [t]
             \<and> tokenHash t = sha256 d s1"
    by auto
next
  assume ok: "status (snd (refresh d e req s1 now db)) = 200"
  from refresh_ok [OF ok] obtain t u n where
    f: "refreshToken_findFirst (sha256 d (present (cookie_refreshToken req))) db = Some (t, Some u)"
    and r: "refresh d e req s1 now db =
         (db\<lparr>refreshTokens :=
               map (\<lambda>x. if id_rt x = id_rt t \<and> tokenHash x = sha256 d (present (cookie_refreshToken req))
                           \<and> \<not> revoked x
                         then x\<lparr>tokenHash := sha256 d s1, expiresAt := now + n * msPerDay,
                                 ip := kept (or_undefined (req_ip req)) (ip x),
                                 userAgent := kept (or_undefined (header_user_agent req)) (userAgent x)\<rparr>
                         else x) (refreshTokens db)\<rparr>,
          \<lparr>status = 200,
            body = TokenBody (signAccessToken d (id_u u) (role u) now),
            cookies = [SetCookie ''accessToken'' (signAccessToken d (id_u u) (role u) now)
                         (opts e (Some accessMaxAge)),
                       SetCookie ''refreshToken'' s1 (opts e (Some (n * msPerDay)))]\<rparr>)"
    by blast
  from findFirst_Some [OF f] have t: "t \<in> set (refreshTokens db)"
    "tokenHash t = sha256 d (present (cookie_refreshToken req))" "\<not> revoked t"
    by simp_all
  show "\<exists>t \<in> set (refreshTokens (fst (refresh d e req s1 now db))). tokenHash t = sha256 d s1"
    unfolding r using t
    by (auto intro!: bexI [of _ "t\<lparr>tokenHash := sha256 d s1, expiresAt := now + n * msPerDay,
                                 ip := kept (or_undefined (req_ip req)) (ip t),
                                 userAgent := kept (or_undefined (header_user_agent req)) (userAgent t)\<rparr>"]
             simp: image_iff intro: bexI [of _ t])
qed

theorem secret_stored_as_digest_only_witness:
  "sha256 weak_deps ''s1'' = sha256 weak_deps ''s2''
   \<and> fst (register weak_deps demo_env (form ''a@x.com'' ''P@ssw0rd!'' ''A'') ''s1'' 1000 empty_db)
       = fst (register weak_deps demo_env (form ''a@x.com'' ''P@ssw0rd!'' ''A'') ''s2'' 1000 empty_db)
   \<and> status (snd (register weak_deps demo_env (form ''a@x.com'' ''P@ssw0rd!'' ''A'') ''s1'' 1000 empty_db)) = 201
   \<and> map tokenHash (refreshTokens (fst (register weak_deps demo_env (form ''a@x.com'' ''P@ssw0rd!'' ''A'') ''s1'' 1000 empty_db)))
       = [''s'']
   \<and> status (snd (login demo_deps demo_env (form ''a@x.com'' ''P@ssw0rd!'' []) ''s2'' 2000 one_user_db)) = 200
   \<and> map tokenHash (refreshTokens (fst (login demo_deps demo_env (form ''a@x.com'' ''P@ssw0rd!'' []) ''s2'' 2000 one_user_db)))
       = [''#s1'', ''#s2'']
   \<and> status (snd (refresh demo_deps demo_env (with_cookie ''s1'') ''s3'' 3000 one_user_db)) = 200
   \<and> map tokenHash (refreshTokens (fst (refresh demo_deps demo_env (with_cookie ''s1'') ''s3'' 3000 one_user_db)))
       = [''#s3'']"
proof -
  have h: "sha256 weak_deps ''s1'' = sha256 weak_deps ''s2''"
    by code_simp
  have h1: "status (snd (register weak_deps demo_env (form ''a@x.com'' ''P@ssw0rd!'' ''A'') ''s1'' 1000 empty_db)) = 201"
    by code_simp
  have h2: "status (snd (login demo_deps demo_env (form ''a@x.com'' ''P@ssw0rd!'' []) ''s2'' 2000 one_user_db)) = 200"
    by code_simp
  have h3: "status (snd (refresh demo_deps demo_env (with_cookie ''s1'') ''s3'' 3000 one_user_db)) = 200"
    by code_simp
  have t1: "map tokenHash (refreshTokens (fst (register weak_deps demo_env (form ''a@x.com'' ''P@ssw0rd!'' ''A'') ''s1'' 1000 empty_db)))
       = [''s'']"
    by code_simp
  have t2: "map tokenHash (refreshTokens (fst (login demo_deps demo_env (form ''a@x.com'' ''P@ssw0rd!'' []) ''s2'' 2000 one_user_db)))
       = [''#s1'', ''#s2'']"
    by code_simp
  have t3: "map tokenHash (refreshTokens (fst (refresh demo_deps demo_env (with_cookie ''s1'') ''s3'' 3000 one_user_db)))
       = [''#s3'']"
    by code_simp
  note w1 = secret_stored_as_digest_only [OF h, of demo_env "form ''a@x.com'' ''P@ssw0rd!'' ''A''" 1000 empty_db]
  note w2 = secret_stored_as_digest_only [of demo_deps "''s2''" "''s2''" demo_env
              "form ''a@x.com'' ''P@ssw0rd!'' []" 2000 one_user_db, OF refl]
  note w3 = secret_stored_as_digest_only [of demo_deps "''s3''" "''s3''" demo_env
              "with_cookie ''s1''" 3000 one_user_db, OF refl]
  from w1 w2 w3 h h1 h2 h3 t1 t2 t3 show ?thesis
    by simp
qed

section \<open>Logout\<close>

lemma findFirst_None: "\<not> live h db \<Longrightarrow> refreshToken_findFirst h db = None"
  by (auto simp: live_def refreshToken_findFirst_def find_None_iff split: option.splits)

lemma refresh_no_live_row:
  assumes "\<not> falsy (cookie_refreshToken req)"
      and "\<not> live (sha256 d (present (cookie_refreshToken req))) db"
  shows "refresh d e req s now db = (db, json_message 401 ''Invalid refresh token'')"
  using assms by (simp add: refresh_def findFirst_None)


lemma logout_tokens:
  assumes "\<not> falsy (cookie_refreshToken req)"
  shows "refreshTokens (fst (logout d e req db))
           = map (\<lambda>t. t\<lparr>revoked := revoked t \<or> tokenHash t = sha256 d (present (cookie_refreshToken req))\<rparr>)
               (refreshTokens db)"
  using assms by (auto simp: logout_def refreshToken_updateMany_def)





section \<open>Digests that no live row holds\<close>

text \<open>
  How each handler changes the refresh-token table: register and login append at most one
  row, holding the digest of the secret drawn; refresh and logout keep every row in place and
  at most revoke it or, in refresh, give it the digest of the secret drawn.
\<close>

lemma register_tokens:
  "refreshTokens (fst (register d e req s now db)) = refreshTokens db
   \<or> (\<exists>t. refreshTokens (fst (register d e req s now db)) = refreshTokens db @ [t]
          \<and> tokenHash t = sha256 d s)"
  by (simp add: register_def Let_def user_create_def refreshToken_create_def
           split: option.splits prod.splits)

lemma login_tokens:
  "refreshTokens (fst (login d e req s now db)) = refreshTokens db
   \<or> (\<exists>t. refreshTokens (fst (login d e req s now db)) = refreshTokens db @ [t]
          \<and> tokenHash t = sha256 d s)"
  by (auto simp: login_def Let_def user_update_def refreshToken_create_def
           split: option.splits prod.splits)

lemma rotate_tokens:
  "list_all2 (\<lambda>x y. y = x \<or> tokenHash y = sha256 d s)
     (refreshTokens db) (refreshTokens (fst (rotate d e req s now ex u h db)))"
  by (simp add: rotate_def Let_def refreshToken_updateMany_def list_all2_map2 list_all2_same
           split: option.splits prod.splits)

lemma refresh_tokens:
  "list_all2 (\<lambda>x y. y = x \<or> y = x\<lparr>revoked := True\<rparr> \<or> tokenHash y = sha256 d s)
     (refreshTokens db) (refreshTokens (fst (refresh d e req s now db)))"
proof -
  have "list_all2 (\<lambda>x y. y = x \<or> y = x\<lparr>revoked := True\<rparr> \<or> tokenHash y = sha256 d s)
     (refreshTokens db) (refreshTokens (fst (rotate d e req s now ex u h db)))" for ex u h
    using rotate_tokens [of d s db e req now ex u h]
    by (rule list_all2_mono) auto
  then show ?thesis
    by (simp add: refresh_def Let_def refreshToken_update_def list_all2_map2 list_all2_same
           split: option.splits prod.splits)
qed

lemma logout_tokens_rel:
  "list_all2 (\<lambda>x y. y = x \<or> y = x\<lparr>revoked := True\<rparr>)
     (refreshTokens db) (refreshTokens (fst (logout d e req db)))"
  by (simp add: logout_def Let_def refreshToken_updateMany_def list_all2_map2 list_all2_same)


text \<open>
  So a digest that no live row holds stays that way, as long as no later call draws a secret
  with that digest: a refresh presenting a secret of that digest is refused from then on.
\<close>

lemma dead_after:
  assumes "\<not> live h db"
      and "list_all2 (\<lambda>x y. y = x \<or> y = x\<lparr>revoked := True\<rparr> \<or> tokenHash y \<noteq> h) (refreshTokens db) ts"
  shows "\<not> live h (db'\<lparr>refreshTokens := ts\<rparr>)"
proof
  assume "live h (db'\<lparr>refreshTokens := ts\<rparr>)"
  then obtain y where y: "y \<in> set ts" "tokenHash y = h" "\<not> revoked y"
    by (auto simp: live_def)
  from y(1) obtain i where i: "i < length ts" "ts ! i = y"
    by (auto simp: in_set_conv_nth)
  from assms(2) have len: "length (refreshTokens db) = length ts"
    by (rule list_all2_lengthD)
  define x where "x = refreshTokens db ! i"
  from len i(1) have "x \<in> set (refreshTokens db)"
    by (simp add: x_def)
  moreover from list_all2_nthD2 [OF assms(2) i(1)] i(2)
  have "y = x \<or> y = x\<lparr>revoked := True\<rparr> \<or> tokenHash y \<noteq> h"
    by (simp add: x_def)
  ultimately have x: "x \<in> set (refreshTokens db)"
    "y = x \<or> y = x\<lparr>revoked := True\<rparr> \<or> tokenHash y \<noteq> h"
    by simp_all
  with y have "y = x" by auto
  with x(1) y assms(1) show False by (auto simp: live_def)
qed

lemma register_keeps_dead:
  assumes "\<not> live h db" "sha256 d s \<noteq> h"
  shows "\<not> live h (fst (register d e req s now db))"
  using register_tokens [of d e req s now db] assms
  by (auto simp: live_def)

lemma login_keeps_dead:
  assumes "\<not> live h db" "sha256 d s \<noteq> h"
  shows "\<not> live h (fst (login d e req s now db))"
  using login_tokens [of d e req s now db] assms
  by (auto simp: live_def)

lemma refresh_keeps_dead:
  assumes "\<not> live h db" "sha256 d s \<noteq> h"
  shows "\<not> live h (fst (refresh d e req s now db))"
proof -
  have "list_all2 (\<lambda>x y. y = x \<or> y = x\<lparr>revoked := True\<rparr> \<or> tokenHash y \<noteq> h)
          (refreshTokens db) (refreshTokens (fst (refresh d e req s now db)))"
    using refresh_tokens [of d s db e req now]
    by (rule list_all2_mono) (use assms(2) in auto)
  from dead_after [OF assms(1) this, of "fst (refresh d e req s now db)"] show ?thesis
    by simp
qed

lemma logout_keeps_dead:
  assumes "\<not> live h db"
  shows "\<not> live h (fst (logout d e req db))"
proof -
  have "list_all2 (\<lambda>x y. y = x \<or> y = x\<lparr>revoked := True\<rparr> \<or> tokenHash y \<noteq> h)
          (refreshTokens db) (refreshTokens (fst (logout d e req db)))"
    using logout_tokens_rel [of db d e req]
    by (rule list_all2_mono) auto
  from dead_after [OF assms(1) this, of "fst (logout d e req db)"] show ?thesis
    by simp
qed

lemma dispatch_keeps_dead:
  assumes "\<not> live h db" and "\<forall>x. drawn c = Some x \<longrightarrow> sha256 d x \<noteq> h"
  shows "\<not> live h (fst (dispatch d e db c))"
  using assms
  by (cases c) (simp_all add: register_keeps_dead login_keeps_dead refresh_keeps_dead logout_keeps_dead)

lemma run_keeps_dead:
  assumes "\<not> live h db" and "\<forall>c \<in> set cs. \<forall>x. drawn c = Some x \<longrightarrow> sha256 d x \<noteq> h"
  shows "\<not> live h (run d e db cs)"
  using assms
proof (induction cs arbitrary: db)
  case Nil
  then show ?case by simp
next
  case (Cons c cs)
  from Cons.prems have "\<not> live h (fst (dispatch d e db c))"
    by (intro dispatch_keeps_dead) simp_all
  with Cons show ?case by simp
qed

section \<open>Refresh: rotation and expiry\<close>

text \<open>
  The claims below are about databases in which no two refresh-token rows hold the same
  digest. Every database the handlers build from an empty one is such, as long as the secrets
  drawn have different digests.
\<close>

lemma same_digest_same_row:
  assumes "distinct (map tokenHash ts)" "t \<in> set ts" "t' \<in> set ts" "tokenHash t = tokenHash t'"
  shows "t = t'"
  using assms by (meson distinct_map inj_onD)

lemma rotated_is_dead:
  assumes ok: "status (snd (refresh d e req s now db)) = 200"
      and dist: "distinct (map tokenHash (refreshTokens db))"
      and new: "sha256 d s \<noteq> sha256 d (present (cookie_refreshToken req))"
  shows "\<not> live (sha256 d (present (cookie_refreshToken req))) (fst (refresh d e req s now db))"
proof -
  from refresh_ok [OF ok] obtain t u n where
    f: "refreshToken_findFirst (sha256 d (present (cookie_refreshToken req))) db = Some (t, Some u)"
    and r: "refresh d e req s now db =
         (db\<lparr>refreshTokens :=
               map (\<lambda>x. if id_rt x = id_rt t \<and> tokenHash x = sha256 d (present (cookie_refreshToken req))
                           \<and> \<not> revoked x
                         then x\<lparr>tokenHash := sha256 d s, expiresAt := now + n * msPerDay,
                                 ip := kept (or_undefined (req_ip req)) (ip x),
                                 userAgent := kept (or_undefined (header_user_agent req)) (userAgent x)\<rparr>
                         else x) (refreshTokens db)\<rparr>,
          \<lparr>status = 200,
            body = TokenBody (signAccessToken d (id_u u) (role u) now),
            cookies = [SetCookie ''accessToken'' (signAccessToken d (id_u u) (role u) now)
                         (opts e (Some accessMaxAge)),
                       SetCookie ''refreshToken'' s (opts e (Some (n * msPerDay)))]\<rparr>)"
    by blast
  from findFirst_Some [OF f] have t: "t \<in> set (refreshTokens db)"
    "tokenHash t = sha256 d (present (cookie_refreshToken req))" "\<not> revoked t"
    by simp_all
  have only: "x = t" if "x \<in> set (refreshTokens db)"
    "tokenHash x = sha256 d (present (cookie_refreshToken req))" for x
    using same_digest_same_row [OF dist that(1) t(1)] that(2) t(2) by simp
  show ?thesis
  proof
    assume "live (sha256 d (present (cookie_refreshToken req))) (fst (refresh d e req s now db))"
    then obtain x where x: "x \<in> set (refreshTokens db)"
      and y: "tokenHash (if id_rt x = id_rt t \<and> tokenHash x = sha256 d (present (cookie_refreshToken req))
                           \<and> \<not> revoked x
                         then x\<lparr>tokenHash := sha256 d s, expiresAt := now + n * msPerDay,
                                 ip := kept (or_undefined (req_ip req)) (ip x),
                                 userAgent := kept (or_undefined (header_user_agent req)) (userAgent x)\<rparr>
                         else x) = sha256 d (present (cookie_refreshToken req))"
      unfolding r live_def by auto
    from y new have "tokenHash x = sha256 d (present (cookie_refreshToken req))"
      and "\<not> (id_rt x = id_rt t \<and> tokenHash x = sha256 d (present (cookie_refreshToken req))
                           \<and> \<not> revoked x)"
      by (auto split: if_splits)
    with only [OF x] t show False by simp
  qed
qed

lemma expired_revokes:
  assumes c: "\<not> falsy (cookie_refreshToken req)"
      and f: "refreshToken_findFirst (sha256 d (present (cookie_refreshToken req))) db = Some (t, Some u)"
      and x: "expiresAt t \<le> now"
  shows "refresh d e req s now db =
           (db\<lparr>refreshTokens := map (\<lambda>x. if id_rt x = id_rt t then x\<lparr>revoked := True\<rparr> else x) (refreshTokens db)\<rparr>,
            \<lparr>status = 401, body = Message ''Refresh token expired'',
             cookies = [ClearCookie ''refreshToken'' (opts e None)]\<rparr>)"
proof -
  from findFirst_Some [OF f] have "\<exists>x \<in> set (refreshTokens db). id_rt x = id_rt t"
    by blast
  with c f x show ?thesis
    by (simp add: refresh_def refreshToken_update_def)
qed

lemma expired_is_dead:
  assumes c: "\<not> falsy (cookie_refreshToken req)"
      and f: "refreshToken_findFirst (sha256 d (present (cookie_refreshToken req))) db = Some (t, Some u)"
      and x: "expiresAt t \<le> now"
      and dist: "distinct (map tokenHash (refreshTokens db))"
  shows "\<not> live (sha256 d (present (cookie_refreshToken req))) (fst (refresh d e req s now db))"
proof -
  from findFirst_Some [OF f] have t: "t \<in> set (refreshTokens db)"
    "tokenHash t = sha256 d (present (cookie_refreshToken req))"
    by simp_all
  have only: "x = t" if "x \<in> set (refreshTokens db)"
    "tokenHash x = sha256 d (present (cookie_refreshToken req))" for x
    using same_digest_same_row [OF dist that(1) t(1)] that(2) t(2) by simp
  show ?thesis
  proof
    assume "live (sha256 d (present (cookie_refreshToken req))) (fst (refresh d e req s now db))"
    then obtain x where x: "x \<in> set (refreshTokens db)"
      and y: "tokenHash (if id_rt x = id_rt t then x\<lparr>revoked := True\<rparr> else x)
                = sha256 d (present (cookie_refreshToken req))"
             "\<not> revoked (if id_rt x = id_rt t then x\<lparr>revoked := True\<rparr> else x)"
      unfolding expired_revokes [OF c f assms(3)] live_def by auto
    from y have "tokenHash x = sha256 d (present (cookie_refreshToken req))" "id_rt x \<noteq> id_rt t"
      by (auto split: if_splits)
    with only [OF x] show False by simp
  qed
qed

lemma rotate_no_match:
  assumes "newDate (map_option (\<lambda>n. now + n * msPerDay) (expDaysOr e ''7'')) \<noteq> None"
      and "\<not> (\<exists>t \<in> set (refreshTokens db). id_rt t = id_rt ex \<and> tokenHash t = h \<and> \<not> revoked t)"
  shows "rotate d e req s now ex u h db = (db, json_message 401 ''Invalid or already rotated refresh token'')"
proof -
  from assms(2) have "filter (\<lambda>t. id_rt t = id_rt ex \<and> tokenHash t = h \<and> \<not> revoked t) (refreshTokens db) = []"
    by (auto simp: filter_empty_conv)
  moreover from assms(2) have "map (\<lambda>t. if id_rt t = id_rt ex \<and> tokenHash t = h \<and> \<not> revoked t
                        then t\<lparr>tokenHash := sha256 d s, expiresAt := x,
                             ip := kept (or_undefined (req_ip req)) (ip t),
                             userAgent := kept (or_undefined (header_user_agent req)) (userAgent t)\<rparr> else t) (refreshTokens db)
               = refreshTokens db" for x
    by (intro map_idI) auto
  ultimately show ?thesis
    using assms(1) by (auto simp: rotate_def refreshToken_updateMany_def Let_def)
qed

lemma rotated_leaves_no_match:
  assumes ok: "status (snd (refresh d e req s now db)) = 200"
      and new: "sha256 d s \<noteq> sha256 d (present (cookie_refreshToken req))"
      and f: "refreshToken_findFirst (sha256 d (present (cookie_refreshToken req))) db = Some (t, v)"
  shows "\<not> (\<exists>x \<in> set (refreshTokens (fst (refresh d e req s now db))).
             id_rt x = id_rt t \<and> tokenHash x = sha256 d (present (cookie_refreshToken req)) \<and> \<not> revoked x)"
proof -
  from refresh_ok [OF ok] obtain t0 u n where
    f0: "refreshToken_findFirst (sha256 d (present (cookie_refreshToken req))) db = Some (t0, Some u)"
    and r: "refresh d e req s now db =
         (db\<lparr>refreshTokens :=
               map (\<lambda>x. if id_rt x = id_rt t0 \<and> tokenHash x = sha256 d (present (cookie_refreshToken req))
                           \<and> \<not> revoked x
                         then x\<lparr>tokenHash := sha256 d s, expiresAt := now + n * msPerDay,
                                 ip := kept (or_undefined (req_ip req)) (ip x),
                                 userAgent := kept (or_undefined (header_user_agent req)) (userAgent x)\<rparr>
                         else x) (refreshTokens db)\<rparr>,
          \<lparr>status = 200,
            body = TokenBody (signAccessToken d (id_u u) (role u) now),
            cookies = [SetCookie ''accessToken'' (signAccessToken d (id_u u) (role u) now)
                         (opts e (Some accessMaxAge)),
                       SetCookie ''refreshToken'' s (opts e (Some (n * msPerDay)))]\<rparr>)"
    by blast
  from f f0 have t0: "t0 = t"
    by simp
  show ?thesis
    unfolding r t0 using new by (auto split: if_splits)
qed

text \<open>
  Claim C1. Let a refresh presenting the secret \<open>S\<close> succeed, drawing a successor with
  another digest. Then, after any further calls that draw no secret with the digest of \<open>S\<close>,
  a refresh presenting \<open>S\<close> is refused with status 401, \<open>Invalid refresh token\<close>, and
  changes nothing. The rotation is one \<open>updateMany\<close> on the rows with the id read, the digest
  presented and \<open>revoked = false\<close>: whenever no row of the database it meets is such (and the
  new expiry is a date, so that the write is issued), the handler answers 401, \<open>Invalid or
  already rotated refresh token\<close>, and changes nothing. That is the case for a second handler
  that read the same row before the first one wrote.
\<close>
theorem refresh_single_use:
  assumes ok: "status (snd (refresh d e req s now db)) = 200"
      and dist: "distinct (map tokenHash (refreshTokens db))"
      and new: "sha256 d s \<noteq> sha256 d (present (cookie_refreshToken req))"
      and later: "\<forall>c \<in> set cs. \<forall>x. drawn c = Some x \<longrightarrow>
                    sha256 d x \<noteq> sha256 d (present (cookie_refreshToken req))"
      and same: "cookie_refreshToken req' = cookie_refreshToken req"
  shows "refresh d e req' s' now' (run d e (fst (refresh d e req s now db)) cs)
           = (run d e (fst (refresh d e req s now db)) cs, json_message 401 ''Invalid refresh token'')
       \<and> (newDate (map_option (\<lambda>n. now2 + n * msPerDay) (expDaysOr e ''7'')) \<noteq> None
            \<and> \<not> (\<exists>x \<in> set (refreshTokens db2). id_rt x = id_rt ex \<and> tokenHash x = h \<and> \<not> revoked x)
          \<longrightarrow> rotate d e req2 s2 now2 ex u2 h db2
                = (db2, json_message 401 ''Invalid or already rotated refresh token''))
       \<and> (newDate (map_option (\<lambda>n. now' + n * msPerDay) (expDaysOr e ''7'')) \<noteq> None
            \<and> refreshToken_findFirst (sha256 d (present (cookie_refreshToken req))) db = Some (t, v)
          \<longrightarrow> rotate d e req' s' now' t u' (sha256 d (present (cookie_refreshToken req)))
                  (fst (refresh d e req s now db))
                = (fst (refresh d e req s now db),
                   json_message 401 ''Invalid or already rotated refresh token''))"
proof (intro conjI impI)
  from refresh_ok [OF ok] have c: "\<not> falsy (cookie_refreshToken req')"
    using same by auto
  have "\<not> live (sha256 d (present (cookie_refreshToken req))) (run d e (fst (refresh d e req s now db)) cs)"
    using rotated_is_dead [OF ok dist new] later by (rule run_keeps_dead)
  with c same show "refresh d e req' s' now' (run d e (fst (refresh d e req s now db)) cs)
           = (run d e (fst (refresh d e req s now db)) cs, json_message 401 ''Invalid refresh token'')"
    by (simp add: refresh_no_live_row)
next
  assume "newDate (map_option (\<lambda>n. now2 + n * msPerDay) (expDaysOr e ''7'')) \<noteq> None
            \<and> \<not> (\<exists>x \<in> set (refreshTokens db2). id_rt x = id_rt ex \<and> tokenHash x = h \<and> \<not> revoked x)"
  then show "rotate d e req2 s2 now2 ex u2 h db2
                = (db2, json_message 401 ''Invalid or already rotated refresh token'')"
    by (intro rotate_no_match) simp_all
next
  assume a: "newDate (map_option (\<lambda>n. now' + n * msPerDay) (expDaysOr e ''7'')) \<noteq> None
            \<and> refreshToken_findFirst (sha256 d (present (cookie_refreshToken req))) db = Some (t, v)"
  then have f: "refreshToken_findFirst (sha256 d (present (cookie_refreshToken req))) db = Some (t, v)"
    and dt: "newDate (map_option (\<lambda>n. now' + n * msPerDay) (expDaysOr e ''7'')) \<noteq> None"
    by simp_all
  show "rotate d e req' s' now' t u' (sha256 d (present (cookie_refreshToken req)))
                  (fst (refresh d e req s now db))
                = (fst (refresh d e req s now db),
                   json_message 401 ''Invalid or already rotated refresh token'')"
    using dt rotated_leaves_no_match [OF ok new f] by (rule rotate_no_match)
qed

text \<open>
  Claim C2. Let the presented secret match a live row whose user exists and whose expiry is
  not after the clock. Then refresh answers 401, \<open>Refresh token expired\<close>, clears the
  refresh cookie and writes \<open>revoked\<close> on that row, changing nothing else. After any further
  calls that draw no secret with the same digest, a refresh presenting the secret again is
  refused with status 401, \<open>Invalid refresh token\<close>.
\<close>
theorem refresh_expired:
  assumes c: "\<not> falsy (cookie_refreshToken req)"
      and f: "refreshToken_findFirst (sha256 d (present (cookie_refreshToken req))) db = Some (t, Some u)"
      and x: "expiresAt t \<le> now"
      and dist: "distinct (map tokenHash (refreshTokens db))"
      and later: "\<forall>c \<in> set cs. \<forall>x. drawn c = Some x \<longrightarrow>
                    sha256 d x \<noteq> sha256 d (present (cookie_refreshToken req))"
      and same: "cookie_refreshToken req' = cookie_refreshToken req"
  shows "snd (refresh d e req s now db)
           = \<lparr>status = 401, body = Message ''Refresh token expired'',
              cookies = [ClearCookie ''refreshToken'' (opts e None)]\<rparr>
       \<and> users (fst (refresh d e req s now db)) = users db
       \<and> refreshTokens (fst (refresh d e req s now db))
           = map (\<lambda>x. if id_rt x = id_rt t then x\<lparr>revoked := True\<rparr> else x) (refreshTokens db)
       \<and> t\<lparr>revoked := True\<rparr> \<in> set (refreshTokens (fst (refresh d e req s now db)))
       \<and> refresh d e req' s' now' (run d e (fst (refresh d e req s now db)) cs)
           = (run d e (fst (refresh d e req s now db)) cs, json_message 401 ''Invalid refresh token'')"
proof -
  note r = expired_revokes [OF c f x, of e s]
  from findFirst_Some [OF f] have t: "t \<in> set (refreshTokens db)"
    by simp
  have m: "t\<lparr>revoked := True\<rparr> \<in> set (refreshTokens (fst (refresh d e req s now db)))"
    unfolding r using t by (auto simp: image_iff intro!: bexI [of _ t])
  have "\<not> live (sha256 d (present (cookie_refreshToken req))) (run d e (fst (refresh d e req s now db)) cs)"
    using expired_is_dead [OF c f x dist] later by (rule run_keeps_dead)
  with c same have "refresh d e req' s' now' (run d e (fst (refresh d e req s now db)) cs)
           = (run d e (fst (refresh d e req s now db)) cs, json_message 401 ''Invalid refresh token'')"
    by (simp add: refresh_no_live_row)
  with m show ?thesis
    by (simp add: r)
qed


theorem refresh_single_use_witness:
  "status (snd (refresh demo_deps demo_env (with_cookie ''s1'') ''s3'' 3000 one_user_db)) = 200
   \<and> distinct (map tokenHash (refreshTokens one_user_db))
   \<and> refresh demo_deps demo_env (with_cookie ''s1'') ''s6'' 6000
        (run demo_deps demo_env (fst (refresh demo_deps demo_env (with_cookie ''s1'') ''s3'' 3000 one_user_db))
           later_calls)
       = (run demo_deps demo_env (fst (refresh demo_deps demo_env (with_cookie ''s1'') ''s3'' 3000 one_user_db))
           later_calls,
          json_message 401 ''Invalid refresh token'')
   \<and> refreshToken_findFirst ''#s1'' one_user_db
       = Some (hd (refreshTokens one_user_db), Some (hd (users one_user_db)))
   \<and> rotate demo_deps demo_env (with_cookie ''s1'') ''s6'' 6000 (hd (refreshTokens one_user_db))
        (hd (users one_user_db)) ''#s1''
        (fst (refresh demo_deps demo_env (with_cookie ''s1'') ''s3'' 3000 one_user_db))
       = (fst (refresh demo_deps demo_env (with_cookie ''s1'') ''s3'' 3000 one_user_db),
          json_message 401 ''Invalid or already rotated refresh token'')"
proof -
  have ok: "status (snd (refresh demo_deps demo_env (with_cookie ''s1'') ''s3'' 3000 one_user_db)) = 200"
    by code_simp
  have dist: "distinct (map tokenHash (refreshTokens one_user_db))"
    by code_simp
  have h: "sha256 demo_deps (present (cookie_refreshToken (with_cookie ''s1''))) = ''#s1''"
    by code_simp
  have new: "sha256 demo_deps ''s3'' \<noteq> sha256 demo_deps (present (cookie_refreshToken (with_cookie ''s1'')))"
    by code_simp
  have later: "\<forall>c \<in> set later_calls. \<forall>x. drawn c = Some x \<longrightarrow>
                 sha256 demo_deps x \<noteq> sha256 demo_deps (present (cookie_refreshToken (with_cookie ''s1'')))"
    by (simp add: later_calls_def demo_deps_def with_cookie_def present_def)
  have dt: "newDate (map_option (\<lambda>n. 6000 + n * msPerDay) (expDaysOr demo_env ''7'')) \<noteq> None"
    by code_simp
  have f: "refreshToken_findFirst (sha256 demo_deps (present (cookie_refreshToken (with_cookie ''s1'')))) one_user_db
             = Some (hd (refreshTokens one_user_db), Some (hd (users one_user_db)))"
    by code_simp
  have gone: "\<not> (\<exists>x \<in> set (refreshTokens (fst (refresh demo_deps demo_env (with_cookie ''s1'') ''s3'' 3000 one_user_db))).
                  id_rt x = id_rt (hd (refreshTokens one_user_db)) \<and> tokenHash x = ''#s1'' \<and> \<not> revoked x)"
    by code_simp
  note w = refresh_single_use [OF ok dist new later refl,
      where s' = "''s6''" and now' = 6000 and ?now2.0 = 6000
        and ?db2.0 = "fst (refresh demo_deps demo_env (with_cookie ''s1'') ''s3'' 3000 one_user_db)"
        and ex = "hd (refreshTokens one_user_db)" and h = "''#s1''" and ?req2.0 = "with_cookie ''s1''"
        and ?s2.0 = "''s6''" and ?u2.0 = "hd (users one_user_db)"
        and t = "hd (refreshTokens one_user_db)" and v = "Some (hd (users one_user_db))"
        and u' = "hd (users one_user_db)"]
  from w ok dist dt f gone show ?thesis
    by (simp add: h)
qed

theorem refresh_expired_witness:
  "\<not> falsy (cookie_refreshToken (with_cookie ''s1''))
   \<and> refreshToken_findFirst ''#s1'' one_user_db
       = Some (hd (refreshTokens one_user_db), Some (hd (users one_user_db)))
   \<and> expiresAt (hd (refreshTokens one_user_db)) \<le> 3000000000
   \<and> distinct (map tokenHash (refreshTokens one_user_db))
   \<and> map revoked (refreshTokens one_user_db) = [False]
   \<and> snd (refresh demo_deps demo_env (with_cookie ''s1'') ''s3'' 3000000000 one_user_db)
       = \<lparr>status = 401, body = Message ''Refresh token expired'',
          cookies = [ClearCookie ''refreshToken'' (opts demo_env None)]\<rparr>
   \<and> map revoked (refreshTokens (fst (refresh demo_deps demo_env (with_cookie ''s1'') ''s3'' 3000000000 one_user_db)))
       = [True]
   \<and> refresh demo_deps demo_env (with_cookie ''s1'') ''s6'' 3000006000
        (run demo_deps demo_env (fst (refresh demo_deps demo_env (with_cookie ''s1'') ''s3'' 3000000000 one_user_db))
           later_calls)
       = (run demo_deps demo_env (fst (refresh demo_deps demo_env (with_cookie ''s1'') ''s3'' 3000000000 one_user_db))
           later_calls,
          json_message 401 ''Invalid refresh token'')"
proof -
  have c: "\<not> falsy (cookie_refreshToken (with_cookie ''s1''))"
    by code_simp
  have h: "sha256 demo_deps (present (cookie_refreshToken (with_cookie ''s1''))) = ''#s1''"
    by code_simp
  have f: "refreshToken_findFirst (sha256 demo_deps (present (cookie_refreshToken (with_cookie ''s1'')))) one_user_db
             = Some (hd (refreshTokens one_user_db), Some (hd (users one_user_db)))"
    by code_simp
  have x: "expiresAt (hd (refreshTokens one_user_db)) \<le> 3000000000"
    by code_simp
  have dist: "distinct (map tokenHash (refreshTokens one_user_db))"
    by code_simp
  have later: "\<forall>c \<in> set later_calls. \<forall>x. drawn c = Some x \<longrightarrow>
                 sha256 demo_deps x \<noteq> sha256 demo_deps (present (cookie_refreshToken (with_cookie ''s1'')))"
    by (simp add: later_calls_def demo_deps_def with_cookie_def present_def)
  have r0: "map revoked (refreshTokens one_user_db) = [False]"
    by code_simp
  have r1: "map revoked (refreshTokens (fst (refresh demo_deps demo_env (with_cookie ''s1'') ''s3'' 3000000000 one_user_db)))
       = [True]"
    by code_simp
  note w = refresh_expired [OF c f x dist later refl, where e = demo_env and s = "''s3''"
             and s' = "''s6''" and now' = 3000006000]
  from w c f x dist r0 r1 show ?thesis
    by (simp add: h)
qed

section \<open>Registration: one user per email\<close>

text \<open>No handler removes a user or changes a stored email.\<close>

lemma register_emails:
  "set (map email (users db)) \<subseteq> set (map email (users (fst (register d e req s now db))))"
  by (auto simp: register_def Let_def user_create_def refreshToken_create_def
           split: option.splits prod.splits)

lemma login_emails:
  "map email (users (fst (login d e req s now db))) = map email (users db)"
proof -
  have "map email (map (\<lambda>u. if id_u u = k then u\<lparr>lastLoginAt := Some now\<rparr> else u) us) = map email us" for k us
    by (induction us) auto
  then show ?thesis
    by (auto simp: login_def Let_def user_update_def refreshToken_create_def
           split: option.splits prod.splits)
qed

lemma refresh_users: "users (fst (refresh d e req s now db)) = users db"
  by (simp add: refresh_def rotate_def Let_def refreshToken_update_def refreshToken_updateMany_def
           split: option.splits prod.splits)

lemma logout_users: "users (fst (logout d e req db)) = users db"
  by (simp add: logout_def refreshToken_updateMany_def)

lemma dispatch_emails:
  "set (map email (users db)) \<subseteq> set (map email (users (fst (dispatch d e db c))))"
  using register_emails [of db d e] login_emails [of d e _ _ _ db]
  by (cases c) (simp_all add: refresh_users logout_users)

lemma run_emails:
  "set (map email (users db)) \<subseteq> set (map email (users (run d e db cs)))"
proof (induction cs arbitrary: db)
  case Nil
  show ?case by simp
next
  case (Cons c cs)
  from dispatch_emails [of db d e c] Cons [of "fst (dispatch d e db c)"] show ?case
    by (simp del: set_map)
qed

lemma register_email_taken:
  assumes "\<not> falsy (body_email req)" "\<not> falsy (body_password req)" "\<not> falsy (body_name req)"
      and "\<exists>u \<in> set (users db). emailEq d (email u) (present (body_email req))"
  shows "register d e req s now db = (db, json_message 409 ''User already exists with the email'')"
proof -
  from assms(4) have "user_findUnique d (present (body_email req)) db \<noteq> None"
    by (auto simp: user_findUnique_def find_None_iff)
  with assms(1-3) show ?thesis
    by (auto simp: register_def)
qed

text \<open>
  Claim C5, as stated, asks that emails be compared without regard to case. The handler
  passes the email of the request to \<open>findUnique\<close> as it came and folds no case anywhere;
  on a plain string column \<open>A@x.com\<close> registers after \<open>a@x.com\<close>.
\<close>

theorem register_case_variant_accepted:
  "map email (users one_user_db) = [''a@x.com'']
   \<and> status (snd (register demo_deps demo_env (form ''A@x.com'' ''P@ssw0rd!'' ''A'') ''s2'' 2000 one_user_db)) = 201
   \<and> map email (users (fst (register demo_deps demo_env (form ''A@x.com'' ''P@ssw0rd!'' ''A'') ''s2'' 2000 one_user_db)))
       = [''a@x.com'', ''A@x.com'']"
  by code_simp

text \<open>
  Claim C5, amended. Once a registration has succeeded, every later registration whose email
  the \<open>email\<close> column's equality identifies with the registered one (for a plain string
  column: the same string, case included) and whose password and name are present is refused
  with status 409, \<open>User already exists with the email\<close>, and changes nothing, whatever
  calls came in between. The same holds in any database that already holds such an email.
\<close>

theorem register_conflict:
  assumes ok: "status (snd (register d e req s now db)) = 201"
      and eq: "emailEq d (present (body_email req)) (present (body_email req'))"
      and given: "\<not> falsy (body_email req')" "\<not> falsy (body_password req')" "\<not> falsy (body_name req')"
  shows "register d e req' s' now' (run d e (fst (register d e req s now db)) cs)
           = (run d e (fst (register d e req s now db)) cs,
              json_message 409 ''User already exists with the email'')
       \<and> ((\<exists>u \<in> set (users db2). emailEq d (email u) (present (body_email req')))
            \<longrightarrow> register d e req' s' now' db2
                  = (db2, json_message 409 ''User already exists with the email''))"
proof (intro conjI impI)
  from register_ok [OF ok]
  have "present (body_email req) \<in> set (map email (users (fst (register d e req s now db))))"
    by (auto simp: user_create_def Let_def)
  with run_emails [of "fst (register d e req s now db)" d e cs]
  have "present (body_email req) \<in> set (map email (users (run d e (fst (register d e req s now db)) cs)))"
    by blast
  with eq have "\<exists>u \<in> set (users (run d e (fst (register d e req s now db)) cs)).
                  emailEq d (email u) (present (body_email req'))"
    by auto
  with given show "register d e req' s' now' (run d e (fst (register d e req s now db)) cs)
           = (run d e (fst (register d e req s now db)) cs,
              json_message 409 ''User already exists with the email'')"
    by (rule register_email_taken)
next
  assume "\<exists>u \<in> set (users db2). emailEq d (email u) (present (body_email req'))"
  with given show "register d e req' s' now' db2
                  = (db2, json_message 409 ''User already exists with the email'')"
    by (rule register_email_taken)
qed

theorem register_conflict_witness:
  "status (snd (register demo_deps demo_env (form ''a@x.com'' ''P@ssw0rd!'' ''A'') ''s1'' 1000 empty_db)) = 201
   \<and> register demo_deps demo_env (form ''a@x.com'' ''other'' ''B'') ''s7'' 7000
        (run demo_deps demo_env one_user_db later_calls)
       = (run demo_deps demo_env one_user_db later_calls,
          json_message 409 ''User already exists with the email'')
   \<and> map email (users one_user_db) = [''a@x.com'']
   \<and> register demo_deps demo_env (form ''a@x.com'' ''other'' ''B'') ''s7'' 7000 one_user_db
       = (one_user_db, json_message 409 ''User already exists with the email'')"
proof -
  have ok: "status (snd (register demo_deps demo_env (form ''a@x.com'' ''P@ssw0rd!'' ''A'') ''s1'' 1000 empty_db)) = 201"
    by code_simp
  have eq: "emailEq demo_deps (present (body_email (form ''a@x.com'' ''P@ssw0rd!'' ''A'')))
              (present (body_email (form ''a@x.com'' ''other'' ''B'')))"
    by code_simp
  have given: "\<not> falsy (body_email (form ''a@x.com'' ''other'' ''B''))"
    "\<not> falsy (body_password (form ''a@x.com'' ''other'' ''B''))"
    "\<not> falsy (body_name (form ''a@x.com'' ''other'' ''B''))"
    by (simp_all add: form_def falsy_def)
  have em: "map email (users one_user_db) = [''a@x.com'']"
    by code_simp
  have there: "\<exists>u \<in> set (users one_user_db).
                 emailEq demo_deps (email u) (present (body_email (form ''a@x.com'' ''other'' ''B'')))"
    by code_simp
  note w = register_conflict [OF ok eq given, where s' = "''s7''" and now' = 7000 and cs = later_calls
             and ?db2.0 = one_user_db]
  from w ok em there show ?thesis
    by (simp add: one_user_db_def)
qed

section \<open>Refresh: the expiry slides\<close>








end
